theory Spec2Isabelle
  imports Main "HOL-Library.Word"
begin

section \<open>Data model of LampControlEsp8266.cpp\<close>

text \<open>
  The controller is one translation unit with global variables. On the ESP8266 an
  \<^verbatim>\<open>int\<close> has 32 bits and the two parameters are \<^verbatim>\<open>int16_t\<close>; both are
  words here, read as two's complement (\<open>sint\<close>, \<open>\<le>s\<close>, \<open><s\<close>), and \<open>+\<close> wraps.
  Serial output, the web server, the captive portal, \<^verbatim>\<open>needReset\<close>,
  \<^verbatim>\<open>connected\<close> and the debugging string \<^verbatim>\<open>switchConditionInfo\<close> never
  flow back into the variables below and are left out.
\<close>

type_synonym int32 = "32 word"
type_synonym int16 = "16 word"

datatype level = LOW | HIGH

datatype pin = D5 | D8

text \<open>
  \<^verbatim>\<open>settingDelayParam\<close> and \<^verbatim>\<open>settingDarkLevelParam\<close>: the values that
  \<^verbatim>\<open>.value()\<close> returns. They do not change while the controller runs (a saved
  configuration restarts the device).
\<close>

record config =
  settingDelayParam :: int16
  settingDarkLevelParam :: int16

text \<open>The global variables, and the levels last written to the two output pins.\<close>

record lamp =
  relayState :: int32
  lightConditionDark :: bool
  lightLevel :: int32
  currLightConditionCycles :: int32
  pinD5 :: level
  pinD8 :: level

section \<open>Operations\<close>

fun digitalWrite :: "pin \<Rightarrow> level \<Rightarrow> lamp \<Rightarrow> lamp" where
  "digitalWrite D5 v s = s\<lparr>pinD5 := v\<rparr>"
| "digitalWrite D8 v s = s\<lparr>pinD8 := v\<rparr>"

definition switchRelayOn :: "lamp \<Rightarrow> lamp" where
  "switchRelayOn s =
     (let s1 = digitalWrite D5 LOW s;
          s2 = digitalWrite D8 HIGH s1
      in s2\<lparr>relayState := 1\<rparr>)"

definition switchRelayOff :: "lamp \<Rightarrow> lamp" where
  "switchRelayOff s =
     (let s1 = digitalWrite D5 HIGH s;
          s2 = digitalWrite D8 LOW s1
      in s2\<lparr>relayState := 0\<rparr>)"

text \<open>
  \<^verbatim>\<open>updateLightValue\<close>; the argument \<open>a0\<close> is what \<^verbatim>\<open>analogRead(A0)\<close>
  returns on this call. The \<^verbatim>\<open>int16_t\<close> parameters are sign-extended to
  \<^verbatim>\<open>int\<close> (\<open>scast\<close>).
\<close>

definition updateLightValue :: "config \<Rightarrow> int32 \<Rightarrow> lamp \<Rightarrow> lamp" where
  "updateLightValue cfg a0 s =
     (let s1 = s\<lparr>lightLevel := a0\<rparr>;
          darkLevelSetting = (scast (settingDarkLevelParam cfg) :: int32);
          newLightConditionDark = (if lightLevel s1 \<le>s darkLevelSetting then True else False);
          s2 = (if newLightConditionDark = lightConditionDark s1
                then s1\<lparr>currLightConditionCycles := currLightConditionCycles s1 + 1\<rparr>
                else s1\<lparr>currLightConditionCycles := 0\<rparr>);
          s3 = s2\<lparr>lightConditionDark := newLightConditionDark\<rparr>;
          cyclesRequiredForRelayChange = (scast (settingDelayParam cfg) :: int32)
      in if cyclesRequiredForRelayChange <s currLightConditionCycles s3
         then s3\<lparr>currLightConditionCycles := cyclesRequiredForRelayChange\<rparr>
         else s3)"

text \<open>
  \<^verbatim>\<open>checkSwitchConditions\<close>: the timer's handler. It returns the new state and
  the handler's result (\<^verbatim>\<open>true\<close>: keep the timer running).
\<close>

definition checkSwitchConditions :: "config \<Rightarrow> int32 \<Rightarrow> lamp \<Rightarrow> lamp \<times> bool" where
  "checkSwitchConditions cfg a0 s =
     (let s1 = updateLightValue cfg a0 s;
          cyclesRequiredForRelayChange = (scast (settingDelayParam cfg) :: int32);
          switchAllowedByTime = (cyclesRequiredForRelayChange \<le>s currLightConditionCycles s1);
          s2 = (if relayState s1 = 0
                then (if lightConditionDark s1 \<and> switchAllowedByTime
                      then switchRelayOn s1 else s1)
                else (if \<not> lightConditionDark s1 \<and> switchAllowedByTime
                      then switchRelayOff s1 else s1))
      in (s2, True))"

text \<open>
  The timer task registered by \<^verbatim>\<open>timer.every(1000L, checkSwitchConditions)\<close>:
  the handler runs once per interval, here once per element of the list of sensor
  values, for as long as it returns \<^verbatim>\<open>true\<close>.
\<close>

fun timer_every :: "config \<Rightarrow> int32 list \<Rightarrow> lamp \<Rightarrow> lamp" where
  "timer_every cfg [] s = s"
| "timer_every cfg (a0 # rest) s =
     (case checkSwitchConditions cfg a0 s of
        (s', keep) \<Rightarrow> if keep then timer_every cfg rest s' else s')"

text \<open>
  The state when \<^verbatim>\<open>setup\<close> is entered: the globals hold their initialisers, the
  two pins whatever level the hardware was left at.
\<close>

definition boot :: "level \<Rightarrow> level \<Rightarrow> lamp" where
  "boot d5 d8 =
     \<lparr>relayState = 0, lightConditionDark = False, lightLevel = 1023,
      currLightConditionCycles = 0, pinD5 = d5, pinD8 = d8\<rparr>"

text \<open>
  \<^verbatim>\<open>setup\<close>: of its statements only \<^verbatim>\<open>switchRelayOff()\<close> touches the state
  above; the timer is registered after it.
\<close>

definition setup_fn :: "lamp \<Rightarrow> lamp" where
  "setup_fn s = switchRelayOff s"

text \<open>\<^verbatim>\<open>setup\<close> followed by the ticks of the timer in \<^verbatim>\<open>loop\<close>.\<close>

definition program :: "config \<Rightarrow> lamp \<Rightarrow> int32 list \<Rightarrow> lamp" where
  "program cfg s0 readings = timer_every cfg readings (setup_fn s0)"

section \<open>Vocabulary of the properties\<close>

text \<open>One tick: the state after one call of the handler.\<close>

definition tick :: "config \<Rightarrow> int32 \<Rightarrow> lamp \<Rightarrow> lamp" where
  "tick cfg a0 s = fst (checkSwitchConditions cfg a0 s)"

text \<open>The classification of a sensor value, as line 167 of the source computes it.\<close>

definition isDark :: "config \<Rightarrow> int32 \<Rightarrow> bool" where
  "isDark cfg a0 = (a0 \<le>s scast (settingDarkLevelParam cfg))"

definition requiredStableTicks :: "config \<Rightarrow> int" where
  "requiredStableTicks cfg = sint (settingDelayParam cfg)"

definition darkThreshold :: "config \<Rightarrow> int" where
  "darkThreshold cfg = sint (settingDarkLevelParam cfg)"

definition stableTickCount :: "lamp \<Rightarrow> int" where
  "stableTickCount s = sint (currLightConditionCycles s)"

text \<open>The handler tests \<^verbatim>\<open>relayState == 0\<close>: every other value counts as on.\<close>

definition relayOn :: "lamp \<Rightarrow> bool" where
  "relayOn s = (relayState s \<noteq> 0)"

text \<open>
  A run in which the classification flips on every tick: the first sensor value is
  classified differently from \<open>d\<close>, the classification before the run, and every later
  one differently from the one before it.
\<close>

fun flips :: "config \<Rightarrow> bool \<Rightarrow> int32 list \<Rightarrow> bool" where
  "flips cfg d [] = True"
| "flips cfg d (a0 # rest) = (isDark cfg a0 \<noteq> d \<and> flips cfg (isDark cfg a0) rest)"

section \<open>Signed reads of the machine integers\<close>

lemma sint_scast16: "sint (scast (x::int16) :: int32) = sint x"
  by (simp add: sint_up_scast is_up)

lemma sint16_le: "sint (x::int16) \<le> 32767"
  using sint_lt [of x] by simp

lemma sint_inc32: "sint (c::int32) < 2147483647 \<Longrightarrow> sint (c + 1) = sint c + 1"
  using sint_ge [of c]
  by (simp add: sint_word_ariths signed_take_bit_int_eq_self)

lemma required_le: "requiredStableTicks cfg \<le> 32767"
  by (simp add: requiredStableTicks_def sint16_le)

lemma switchAllowed_iff:
  "((scast (settingDelayParam cfg) :: int32) \<le>s currLightConditionCycles s) =
   (requiredStableTicks cfg \<le> stableTickCount s)"
  by (simp add: word_sle_eq sint_scast16 requiredStableTicks_def stableTickCount_def)

section \<open>The timer calls the handler once per sensor value\<close>

lemma checkSwitchConditions_keep: "snd (checkSwitchConditions cfg a0 s) = True"
  by (simp add: checkSwitchConditions_def Let_def)

lemma timer_every_Cons:
  "timer_every cfg (a0 # rest) s = timer_every cfg rest (tick cfg a0 s)"
proof -
  obtain s' keep where e: "checkSwitchConditions cfg a0 s = (s', keep)"
    by (cases "checkSwitchConditions cfg a0 s")
  with checkSwitchConditions_keep [of cfg a0 s] have keep by simp
  with e show ?thesis by (simp add: tick_def)
qed

declare timer_every.simps(2) [simp del]
declare timer_every_Cons [simp]

lemma timer_every_append:
  "timer_every cfg (xs @ ys) s = timer_every cfg ys (timer_every cfg xs s)"
  by (induction xs arbitrary: s) simp_all

lemma timer_every_snoc:
  "timer_every cfg (xs @ [a0]) s = tick cfg a0 (timer_every cfg xs s)"
  by (simp add: timer_every_append)

lemmas run_defs =
  tick_def checkSwitchConditions_def updateLightValue_def switchRelayOn_def switchRelayOff_def
  word_sle_eq word_sless_alt

section \<open>What one call changes\<close>

lemma update_dark: "lightConditionDark (updateLightValue cfg a0 s) = isDark cfg a0"
  by (simp add: updateLightValue_def isDark_def Let_def)

lemma update_relay: "relayState (updateLightValue cfg a0 s) = relayState s"
  by (simp add: updateLightValue_def Let_def)

lemma update_pins:
  "pinD5 (updateLightValue cfg a0 s) = pinD5 s"
  "pinD8 (updateLightValue cfg a0 s) = pinD8 s"
  by (simp_all add: updateLightValue_def Let_def)

lemma update_count_reset:
  assumes "0 \<le> requiredStableTicks cfg" and "isDark cfg a0 \<noteq> lightConditionDark s"
  shows "stableTickCount (updateLightValue cfg a0 s) = 0"
  using assms
  by (auto simp add: updateLightValue_def isDark_def Let_def stableTickCount_def
      requiredStableTicks_def word_sless_alt sint_scast16)

lemma update_count_inc:
  assumes "stableTickCount s < 2147483647" and "isDark cfg a0 = lightConditionDark s"
  shows "stableTickCount (updateLightValue cfg a0 s) =
         min (stableTickCount s + 1) (requiredStableTicks cfg)"
  using assms
  by (auto simp add: updateLightValue_def isDark_def Let_def stableTickCount_def
      requiredStableTicks_def word_sless_alt sint_scast16 sint_inc32)

lemma tick_count:
  "currLightConditionCycles (tick cfg a0 s) =
   currLightConditionCycles (updateLightValue cfg a0 s)"
  by (simp add: tick_def checkSwitchConditions_def Let_def switchRelayOn_def switchRelayOff_def)

lemma tick_stable:
  "stableTickCount (tick cfg a0 s) = stableTickCount (updateLightValue cfg a0 s)"
  by (simp add: stableTickCount_def tick_count)

lemma tick_dark: "lightConditionDark (tick cfg a0 s) = isDark cfg a0"
  by (simp add: tick_def checkSwitchConditions_def Let_def switchRelayOn_def switchRelayOff_def
      update_dark)

lemma tick_relay:
  "relayState (tick cfg a0 s) =
     (if requiredStableTicks cfg \<le> stableTickCount (tick cfg a0 s) \<and> isDark cfg a0 \<noteq> relayOn s
      then (if isDark cfg a0 then 1 else 0) else relayState s)"
  by (simp add: tick_def checkSwitchConditions_def Let_def switchRelayOn_def switchRelayOff_def
      update_dark update_relay switchAllowed_iff relayOn_def stableTickCount_def)

lemma tick_pinD5:
  "pinD5 (tick cfg a0 s) =
     (if requiredStableTicks cfg \<le> stableTickCount (tick cfg a0 s) \<and> isDark cfg a0 \<noteq> relayOn s
      then (if isDark cfg a0 then LOW else HIGH) else pinD5 s)"
  by (simp add: tick_def checkSwitchConditions_def Let_def switchRelayOn_def switchRelayOff_def
      update_dark update_relay update_pins switchAllowed_iff relayOn_def stableTickCount_def)

lemma tick_pinD8:
  "pinD8 (tick cfg a0 s) =
     (if requiredStableTicks cfg \<le> stableTickCount (tick cfg a0 s) \<and> isDark cfg a0 \<noteq> relayOn s
      then (if isDark cfg a0 then HIGH else LOW) else pinD8 s)"
  by (simp add: tick_def checkSwitchConditions_def Let_def switchRelayOn_def switchRelayOff_def
      update_dark update_relay update_pins switchAllowed_iff relayOn_def stableTickCount_def)

lemma tick_count_nonneg:
  assumes "0 \<le> requiredStableTicks cfg" and "0 \<le> stableTickCount s"
    and "stableTickCount s < 2147483647"
  shows "0 \<le> stableTickCount (tick cfg a0 s)"
  using assms update_count_reset [of cfg a0 s] update_count_inc [of s cfg a0]
  by (cases "isDark cfg a0 = lightConditionDark s") (simp_all add: tick_stable)

lemma tick_count_le:
  assumes "0 \<le> requiredStableTicks cfg" and "stableTickCount s < 2147483647"
  shows "stableTickCount (tick cfg a0 s) \<le> requiredStableTicks cfg"
  using assms update_count_reset [of cfg a0 s] update_count_inc [of s cfg a0]
  by (cases "isDark cfg a0 = lightConditionDark s") (simp_all add: tick_stable)

lemma tick_count_step:
  assumes "0 \<le> requiredStableTicks cfg" and "0 \<le> stableTickCount s"
    and "stableTickCount s < 2147483647"
  shows "stableTickCount (tick cfg a0 s) \<le> stableTickCount s + 1"
  using assms update_count_reset [of cfg a0 s] update_count_inc [of s cfg a0]
  by (cases "isDark cfg a0 = lightConditionDark s") (simp_all add: tick_stable)

text \<open>Below the required count a tick leaves the relay alone.\<close>

lemma tick_quiet:
  assumes "stableTickCount (tick cfg a0 s) < requiredStableTicks cfg"
  shows "relayState (tick cfg a0 s) = relayState s \<and>
         pinD5 (tick cfg a0 s) = pinD5 s \<and> pinD8 (tick cfg a0 s) = pinD8 s"
  using assms
  by (simp add: tick_relay [of cfg a0 s] tick_pinD5 [of cfg a0 s] tick_pinD8 [of cfg a0 s])

text \<open>So does a tick whose classification the relay already matches.\<close>

lemma tick_agree:
  assumes "relayOn s = isDark cfg a0"
  shows "relayState (tick cfg a0 s) = relayState s \<and>
         pinD5 (tick cfg a0 s) = pinD5 s \<and> pinD8 (tick cfg a0 s) = pinD8 s"
  using assms
  by (simp add: tick_relay [of cfg a0 s] tick_pinD5 [of cfg a0 s] tick_pinD8 [of cfg a0 s])

text \<open>At the required count the relay matches the classification after the tick.\<close>

lemma tick_match:
  assumes "requiredStableTicks cfg \<le> stableTickCount (tick cfg a0 s)"
  shows "relayOn (tick cfg a0 s) = isDark cfg a0"
proof -
  have "relayState (tick cfg a0 s) =
      (if isDark cfg a0 \<noteq> relayOn s then (if isDark cfg a0 then 1 else 0) else relayState s)"
    using assms by (simp add: tick_relay [of cfg a0 s])
  then show ?thesis
    by (cases "isDark cfg a0 = relayOn s") (auto simp add: relayOn_def)
qed

section \<open>Runs of ticks\<close>

text \<open>Once within its bounds the counter stays there, whatever the sensor delivers.\<close>

lemma counter_invariant:
  assumes "0 \<le> requiredStableTicks cfg"
    and "0 \<le> stableTickCount s" and "stableTickCount s \<le> requiredStableTicks cfg"
  shows "0 \<le> stableTickCount (timer_every cfg rs s) \<and>
         stableTickCount (timer_every cfg rs s) \<le> requiredStableTicks cfg"
  using assms(2,3)
proof (induction rs arbitrary: s)
  case Nil
  then show ?case by simp
next
  case (Cons a0 rs)
  from Cons.prems required_le [of cfg] have small: "stableTickCount s < 2147483647" by simp
  have "0 \<le> stableTickCount (tick cfg a0 s)"
    using assms(1) Cons.prems(1) small by (rule tick_count_nonneg)
  moreover have "stableTickCount (tick cfg a0 s) \<le> requiredStableTicks cfg"
    using assms(1) small by (rule tick_count_le)
  ultimately show ?case
    using Cons.IH [of "tick cfg a0 s"] by simp
qed

text \<open>While the counter cannot reach the required count, the relay keeps its state.\<close>

lemma quiet_run:
  assumes "0 \<le> requiredStableTicks cfg"
    and "0 \<le> stableTickCount s"
    and "stableTickCount s + int (length rs) < requiredStableTicks cfg"
  shows "relayState (timer_every cfg rs s) = relayState s \<and>
         pinD5 (timer_every cfg rs s) = pinD5 s \<and> pinD8 (timer_every cfg rs s) = pinD8 s"
  using assms(2,3)
proof (induction rs arbitrary: s)
  case Nil
  then show ?case by simp
next
  case (Cons a0 rs)
  let ?t = "tick cfg a0 s"
  from Cons.prems required_le [of cfg] have small: "stableTickCount s < 2147483647" by simp
  have ge: "0 \<le> stableTickCount ?t"
    using assms(1) Cons.prems(1) small by (rule tick_count_nonneg)
  have le: "stableTickCount ?t \<le> stableTickCount s + 1"
    using assms(1) Cons.prems(1) small by (rule tick_count_step)
  from le Cons.prems(2) have "stableTickCount ?t < requiredStableTicks cfg" by simp
  then have same: "relayState ?t = relayState s \<and> pinD5 ?t = pinD5 s \<and> pinD8 ?t = pinD8 s"
    by (rule tick_quiet)
  from le Cons.prems(2)
  have "stableTickCount ?t + int (length rs) < requiredStableTicks cfg" by simp
  with ge have "relayState (timer_every cfg rs ?t) = relayState ?t \<and>
      pinD5 (timer_every cfg rs ?t) = pinD5 ?t \<and> pinD8 (timer_every cfg rs ?t) = pinD8 ?t"
    by (rule Cons.IH)
  with same show ?case by simp
qed

text \<open>A run that flips on every tick keeps the counter at 0.\<close>

lemma flip_run:
  assumes "1 \<le> requiredStableTicks cfg" and "flips cfg (lightConditionDark s) rs"
  shows "relayState (timer_every cfg rs s) = relayState s \<and>
         pinD5 (timer_every cfg rs s) = pinD5 s \<and> pinD8 (timer_every cfg rs s) = pinD8 s \<and>
         (rs \<noteq> [] \<longrightarrow> stableTickCount (timer_every cfg rs s) = 0)"
  using assms(2)
proof (induction rs arbitrary: s)
  case Nil
  then show ?case by simp
next
  case (Cons a0 rs)
  let ?t = "tick cfg a0 s"
  from Cons.prems have ch: "isDark cfg a0 \<noteq> lightConditionDark s"
    and rest: "flips cfg (lightConditionDark ?t) rs"
    by (auto simp add: tick_dark)
  from assms(1) ch have zero: "stableTickCount ?t = 0"
    by (simp add: tick_stable update_count_reset)
  with assms(1) have "stableTickCount ?t < requiredStableTicks cfg" by simp
  then have same: "relayState ?t = relayState s \<and> pinD5 ?t = pinD5 s \<and> pinD8 ?t = pinD8 s"
    by (rule tick_quiet)
  from Cons.IH [OF rest] same zero show ?case
    by (cases rs) simp_all
qed

lemma flips_take: "flips cfg d rs \<Longrightarrow> flips cfg d (take k rs)"
proof (induction rs arbitrary: d k)
  case Nil
  then show ?case by simp
next
  case (Cons a0 rs)
  then show ?case by (cases k) auto
qed

text \<open>A run of one classification counts up to the required count and stays there.\<close>

lemma steady_run:
  assumes "0 \<le> requiredStableTicks cfg"
    and "lightConditionDark s = d"
    and "0 \<le> stableTickCount s" and "stableTickCount s \<le> requiredStableTicks cfg"
    and "\<forall>r \<in> set rs. isDark cfg r = d"
  shows "stableTickCount (timer_every cfg rs s) =
           min (stableTickCount s + int (length rs)) (requiredStableTicks cfg) \<and>
         lightConditionDark (timer_every cfg rs s) = d"
  using assms(2-5)
proof (induction rs arbitrary: s)
  case Nil
  then show ?case by simp
next
  case (Cons a0 rs)
  let ?t = "tick cfg a0 s"
  from Cons.prems required_le [of cfg] have small: "stableTickCount s < 2147483647" by simp
  from Cons.prems have same: "isDark cfg a0 = lightConditionDark s" by simp
  from small same have cnt: "stableTickCount ?t = min (stableTickCount s + 1) (requiredStableTicks cfg)"
    by (simp add: tick_stable update_count_inc)
  from Cons.prems have dk: "lightConditionDark ?t = d" by (simp add: tick_dark)
  from cnt Cons.prems assms(1) have "0 \<le> stableTickCount ?t" "stableTickCount ?t \<le> requiredStableTicks cfg"
    by simp_all
  with dk Cons.prems(4) have "stableTickCount (timer_every cfg rs ?t) =
           min (stableTickCount ?t + int (length rs)) (requiredStableTicks cfg) \<and>
         lightConditionDark (timer_every cfg rs ?t) = d"
    by (intro Cons.IH) simp_all
  with cnt show ?case by (simp add: timer_every_Cons min_def)
qed

lemma steady_window:
  assumes "1 \<le> requiredStableTicks cfg"
    and "lightConditionDark s = d"
    and "0 \<le> stableTickCount s" and "stableTickCount s \<le> requiredStableTicks cfg"
    and "\<forall>r \<in> set rs. isDark cfg r = d"
    and "requiredStableTicks cfg \<le> int (length rs)"
  shows "relayOn (timer_every cfg rs s) = d \<and>
         stableTickCount (timer_every cfg rs s) = requiredStableTicks cfg \<and>
         lightConditionDark (timer_every cfg rs s) = d"
proof -
  from assms(1) have n: "0 \<le> requiredStableTicks cfg" by simp
  from assms(1,6) have "rs \<noteq> []" by auto
  then obtain xs x where rs: "rs = xs @ [x]" by (cases rs rule: rev_cases) simp_all
  with assms(5) have cls: "\<forall>r \<in> set rs. isDark cfg r = d" and x: "isDark cfg x = d" by simp_all
  have fin: "timer_every cfg rs s = tick cfg x (timer_every cfg xs s)"
    by (simp add: rs timer_every_snoc)
  from n assms(2-4) cls
  have st: "stableTickCount (timer_every cfg rs s) =
           min (stableTickCount s + int (length rs)) (requiredStableTicks cfg) \<and>
         lightConditionDark (timer_every cfg rs s) = d"
    by (rule steady_run)
  with assms(3,6) have cnt: "stableTickCount (timer_every cfg rs s) = requiredStableTicks cfg"
    by simp
  then have "requiredStableTicks cfg \<le> stableTickCount (tick cfg x (timer_every cfg xs s))"
    by (simp add: fin)
  then have "relayOn (tick cfg x (timer_every cfg xs s)) = isDark cfg x" by (rule tick_match)
  with x cnt st show ?thesis by (simp add: fin)
qed

text \<open>Once the relay matches a classification held for the required count, nothing moves.\<close>

lemma settled_run:
  assumes "0 \<le> requiredStableTicks cfg"
    and "lightConditionDark s = d" and "relayOn s = d"
    and "stableTickCount s = requiredStableTicks cfg"
    and "\<forall>r \<in> set rs. isDark cfg r = d"
  shows "relayState (timer_every cfg rs s) = relayState s \<and>
         pinD5 (timer_every cfg rs s) = pinD5 s \<and> pinD8 (timer_every cfg rs s) = pinD8 s"
  using assms(2-5)
proof (induction rs arbitrary: s)
  case Nil
  then show ?case by simp
next
  case (Cons a0 rs)
  let ?t = "tick cfg a0 s"
  from Cons.prems required_le [of cfg] have small: "stableTickCount s < 2147483647" by simp
  from Cons.prems have same: "isDark cfg a0 = lightConditionDark s" by simp
  from small same Cons.prems(3) have cnt: "stableTickCount ?t = requiredStableTicks cfg"
    by (simp add: tick_stable update_count_inc)
  from Cons.prems have dk: "lightConditionDark ?t = d" by (simp add: tick_dark)
  from Cons.prems have "relayOn s = isDark cfg a0" by simp
  then have keep: "relayState ?t = relayState s \<and> pinD5 ?t = pinD5 s \<and> pinD8 ?t = pinD8 s"
    by (rule tick_agree)
  with Cons.prems(2) have on: "relayOn ?t = d" by (simp add: relayOn_def)
  from dk on cnt Cons.prems(4)
  have "relayState (timer_every cfg rs ?t) = relayState ?t \<and>
      pinD5 (timer_every cfg rs ?t) = pinD5 ?t \<and> pinD8 (timer_every cfg rs ?t) = pinD8 ?t"
    by (intro Cons.IH) simp_all
  with keep show ?case by simp
qed

section \<open>The counter\<close>

text \<open>
  C4. On a tick the counter becomes 0 when the classification of the sensor value
  differs from the classification stored by the previous tick; otherwise it is the old
  counter plus exactly 1, cut down to \<open>requiredStableTicks\<close> when that is smaller, so that
  it never exceeds \<open>requiredStableTicks\<close>. The configuration is one the parameter admits
  (at least 1), and the counter is not at the largest \<^verbatim>\<open>int\<close>, where the increment
  would wrap; no state the program reaches has such a counter, since it stays between 0
  and \<open>requiredStableTicks\<close>.
\<close>

theorem counter_update_rule:
  assumes "1 \<le> requiredStableTicks cfg" and "stableTickCount s < 2147483647"
  shows "(isDark cfg a0 \<noteq> lightConditionDark s \<longrightarrow> stableTickCount (tick cfg a0 s) = 0) \<and>
         (isDark cfg a0 = lightConditionDark s \<longrightarrow>
            stableTickCount (tick cfg a0 s) =
              min (stableTickCount s + 1) (requiredStableTicks cfg)) \<and>
         stableTickCount (tick cfg a0 s) \<le> requiredStableTicks cfg"
proof (cases "isDark cfg a0 = lightConditionDark s")
  case True
  with assms(2) have "stableTickCount (updateLightValue cfg a0 s) =
      min (stableTickCount s + 1) (requiredStableTicks cfg)"
    by (simp add: update_count_inc)
  with True show ?thesis by (simp add: tick_stable)
next
  case False
  with assms(1) have "stableTickCount (updateLightValue cfg a0 s) = 0"
    by (simp add: update_count_reset)
  with False assms(1) show ?thesis by (simp add: tick_stable)
qed

text \<open>
  From the state after boot, with 3 required ticks and threshold 25: the value 10 is
  dark, a change, and the counter is 0; the value 30 is bright, no change, and the
  counter is 1.
\<close>

theorem counter_update_rule_witness:
  "stableTickCount (tick \<lparr>settingDelayParam = 3, settingDarkLevelParam = 25\<rparr> 10
      (boot HIGH LOW)) = 0 \<and>
   stableTickCount (tick \<lparr>settingDelayParam = 3, settingDarkLevelParam = 25\<rparr> 30
      (boot HIGH LOW)) = 1"
proof -
  let ?cfg = "\<lparr>settingDelayParam = 3, settingDarkLevelParam = 25\<rparr>"
  have r: "1 \<le> requiredStableTicks ?cfg"
    by (simp add: requiredStableTicks_def)
  have c: "stableTickCount (boot HIGH LOW) < 2147483647"
    by (simp add: stableTickCount_def boot_def)
  have d: "isDark ?cfg 10 \<noteq> lightConditionDark (boot HIGH LOW)"
    "isDark ?cfg 30 = lightConditionDark (boot HIGH LOW)"
    by (simp_all add: isDark_def boot_def word_sle_eq)
  from counter_update_rule [OF r c, of 10] counter_update_rule [OF r c, of 30] d
  show ?thesis by (simp add: requiredStableTicks_def stableTickCount_def boot_def)
qed

text \<open>
  C5. For every sequence of sensor values and every configuration with
  \<open>requiredStableTicks\<close> at least 1 (so for all of 1..100), the counter is at least 0 and
  at most \<open>requiredStableTicks\<close> after every tick: in the program started from boot, and
  from any other state whose counter is within these bounds. The list \<open>rs\<close> is
  arbitrary, so the bounds hold after each of its ticks.
\<close>

theorem counter_bounds:
  assumes "1 \<le> requiredStableTicks cfg"
  shows "(0 \<le> stableTickCount (program cfg (boot d5 d8) rs) \<and>
          stableTickCount (program cfg (boot d5 d8) rs) \<le> requiredStableTicks cfg) \<and>
         (0 \<le> stableTickCount s \<and> stableTickCount s \<le> requiredStableTicks cfg \<longrightarrow>
          0 \<le> stableTickCount (timer_every cfg rs s) \<and>
          stableTickCount (timer_every cfg rs s) \<le> requiredStableTicks cfg)"
proof -
  from assms have n: "0 \<le> requiredStableTicks cfg" by simp
  have "stableTickCount (setup_fn (boot d5 d8)) = 0"
    by (simp add: stableTickCount_def setup_fn_def switchRelayOff_def boot_def)
  with n have "0 \<le> stableTickCount (setup_fn (boot d5 d8))"
    "stableTickCount (setup_fn (boot d5 d8)) \<le> requiredStableTicks cfg"
    by simp_all
  with n have "0 \<le> stableTickCount (timer_every cfg rs (setup_fn (boot d5 d8))) \<and>
      stableTickCount (timer_every cfg rs (setup_fn (boot d5 d8))) \<le> requiredStableTicks cfg"
    by (rule counter_invariant)
  moreover have "0 \<le> stableTickCount (timer_every cfg rs s) \<and>
      stableTickCount (timer_every cfg rs s) \<le> requiredStableTicks cfg"
    if "0 \<le> stableTickCount s" "stableTickCount s \<le> requiredStableTicks cfg"
    using n that by (rule counter_invariant)
  ultimately show ?thesis by (simp add: program_def)
qed

theorem counter_bounds_witness:
  "0 \<le> stableTickCount (program \<lparr>settingDelayParam = 2, settingDarkLevelParam = 25\<rparr>
      (boot LOW HIGH) [30, 30, 30, 10, 10]) \<and>
   stableTickCount (program \<lparr>settingDelayParam = 2, settingDarkLevelParam = 25\<rparr>
      (boot LOW HIGH) [30, 30, 30, 10, 10]) \<le> 2 \<and>
   stableTickCount (timer_every \<lparr>settingDelayParam = 2, settingDarkLevelParam = 25\<rparr>
      [30, 30, 30, 10, 10] (boot LOW HIGH)) \<le> 2"
proof -
  let ?cfg = "\<lparr>settingDelayParam = 2, settingDarkLevelParam = 25\<rparr>"
  have r: "1 \<le> requiredStableTicks ?cfg"
    by (simp add: requiredStableTicks_def)
  have c: "0 \<le> stableTickCount (boot LOW HIGH) \<and>
      stableTickCount (boot LOW HIGH) \<le> requiredStableTicks ?cfg"
    by (simp add: stableTickCount_def boot_def requiredStableTicks_def)
  from counter_bounds [OF r, of LOW HIGH "[30, 30, 30, 10, 10]" "boot LOW HIGH"] c
  show ?thesis by (simp add: requiredStableTicks_def)
qed

section \<open>The relay\<close>

text \<open>
  C6. On a tick the relay state changes exactly when, after the counter has been
  updated on this tick, the counter is at least \<open>requiredStableTicks\<close> and the
  classification just computed disagrees with the relay state before the tick (dark while
  the relay is off, or bright while it is on). In every other case the tick leaves
  \<^verbatim>\<open>relayState\<close> and both output pins as they were.
\<close>

theorem relay_change_condition:
  "lightConditionDark (tick cfg a0 s) = isDark cfg a0 \<and>
   (relayState (tick cfg a0 s) \<noteq> relayState s) =
     (requiredStableTicks cfg \<le> stableTickCount (tick cfg a0 s) \<and>
      (lightConditionDark (tick cfg a0 s) \<and> \<not> relayOn s \<or>
       \<not> lightConditionDark (tick cfg a0 s) \<and> relayOn s)) \<and>
   (\<not> (requiredStableTicks cfg \<le> stableTickCount (tick cfg a0 s) \<and>
       (lightConditionDark (tick cfg a0 s) \<and> \<not> relayOn s \<or>
        \<not> lightConditionDark (tick cfg a0 s) \<and> relayOn s)) \<longrightarrow>
      relayState (tick cfg a0 s) = relayState s \<and>
      pinD5 (tick cfg a0 s) = pinD5 s \<and> pinD8 (tick cfg a0 s) = pinD8 s)"
  unfolding tick_dark
  by (auto simp add: tick_relay [of cfg a0 s] tick_pinD5 [of cfg a0 s] tick_pinD8 [of cfg a0 s]
      relayOn_def)

text \<open>
  With 1 required tick: a second dark value in a row switches the relay on; the first
  dark value after boot does not, and leaves pin D5 high.
\<close>

theorem relay_change_condition_witness:
  "relayState (tick \<lparr>settingDelayParam = 1, settingDarkLevelParam = 25\<rparr> 10
      \<lparr>relayState = 0, lightConditionDark = True, lightLevel = 12,
       currLightConditionCycles = 0, pinD5 = HIGH, pinD8 = LOW\<rparr>) \<noteq> 0 \<and>
   relayState (tick \<lparr>settingDelayParam = 1, settingDarkLevelParam = 25\<rparr> 10
      (boot HIGH LOW)) = 0 \<and>
   pinD5 (tick \<lparr>settingDelayParam = 1, settingDarkLevelParam = 25\<rparr> 10
      (boot HIGH LOW)) = HIGH"
  using relay_change_condition [of "\<lparr>settingDelayParam = 1, settingDarkLevelParam = 25\<rparr>" 10
      "\<lparr>relayState = 0, lightConditionDark = True, lightLevel = 12,
        currLightConditionCycles = 0, pinD5 = HIGH, pinD8 = LOW\<rparr>"]
    relay_change_condition [of "\<lparr>settingDelayParam = 1, settingDarkLevelParam = 25\<rparr>" 10
      "boot HIGH LOW"]
  by (simp add: run_defs requiredStableTicks_def stableTickCount_def relayOn_def boot_def)

text \<open>
  C8. A sensor value equal to the dark threshold is classified as dark: the
  classification stored by a tick is \<open>lightLevel \<le> darkThreshold\<close>, inclusive.
\<close>

theorem threshold_inclusive:
  "lightConditionDark (tick cfg (scast (settingDarkLevelParam cfg)) s) \<and>
   lightConditionDark (updateLightValue cfg a0 s) = (sint a0 \<le> darkThreshold cfg) \<and>
   lightConditionDark (tick cfg a0 s) = (sint a0 \<le> darkThreshold cfg)"
  by (simp add: tick_dark update_dark isDark_def word_sle_eq sint_scast16 darkThreshold_def)

text \<open>
  C9. \<^verbatim>\<open>setup\<close> switches the relay off whatever the state before it (relay
  variable, pins, last sensor value): afterwards \<^verbatim>\<open>relayState\<close> is 0, pin D5 is high
  and pin D8 low. It reads no sensor value, and the first tick of the program runs on
  that state.
\<close>

theorem setup_relay_off:
  "relayState (setup_fn s) = 0 \<and> \<not> relayOn (setup_fn s) \<and>
   pinD5 (setup_fn s) = HIGH \<and> pinD8 (setup_fn s) = LOW \<and>
   program cfg s [] = setup_fn s \<and>
   program cfg s (a0 # rest) = timer_every cfg rest (tick cfg a0 (setup_fn s))"
  by (simp add: setup_fn_def switchRelayOff_def relayOn_def program_def)

section \<open>Debouncing\<close>

text \<open>
  C7. For every configuration with \<open>requiredStableTicks\<close> at least 1 and every starting
  state: in a run whose classification flips on every tick (each sensor value is
  classified differently from the one before it, the first differently from the
  classification stored in the starting state), the relay state and both pins are after
  every tick of the run what they were at its start, and the counter is 0 after each of
  these ticks, below \<open>requiredStableTicks\<close>. The prefix \<open>take k rs\<close> is the run up to its
  \<open>k\<close>-th tick.
\<close>

theorem oscillation_keeps_relay:
  assumes "1 \<le> requiredStableTicks cfg" and "flips cfg (lightConditionDark s) rs"
  shows "relayState (timer_every cfg (take k rs) s) = relayState s \<and>
         pinD5 (timer_every cfg (take k rs) s) = pinD5 s \<and>
         pinD8 (timer_every cfg (take k rs) s) = pinD8 s \<and>
         (0 < k \<and> rs \<noteq> [] \<longrightarrow>
            stableTickCount (timer_every cfg (take k rs) s) = 0 \<and>
            stableTickCount (timer_every cfg (take k rs) s) < requiredStableTicks cfg)"
proof -
  from assms(2) have "flips cfg (lightConditionDark s) (take k rs)" by (rule flips_take)
  with assms(1) have
    "relayState (timer_every cfg (take k rs) s) = relayState s \<and>
     pinD5 (timer_every cfg (take k rs) s) = pinD5 s \<and>
     pinD8 (timer_every cfg (take k rs) s) = pinD8 s \<and>
     (take k rs \<noteq> [] \<longrightarrow> stableTickCount (timer_every cfg (take k rs) s) = 0)"
    by (rule flip_run)
  with assms(1) show ?thesis by auto
qed

text \<open>Dark, bright, dark, bright after boot, with 1 required tick: the relay stays off.\<close>

theorem oscillation_keeps_relay_witness:
  "relayState (timer_every \<lparr>settingDelayParam = 1, settingDarkLevelParam = 25\<rparr>
      (take 4 [10, 30, 10, 30]) (boot HIGH LOW)) = 0 \<and>
   stableTickCount (timer_every \<lparr>settingDelayParam = 1, settingDarkLevelParam = 25\<rparr>
      (take 4 [10, 30, 10, 30]) (boot HIGH LOW)) = 0"
proof -
  let ?cfg = "\<lparr>settingDelayParam = 1, settingDarkLevelParam = 25\<rparr>"
  have n: "1 \<le> requiredStableTicks ?cfg" by (simp add: requiredStableTicks_def)
  have f: "flips ?cfg (lightConditionDark (boot HIGH LOW)) [10, 30, 10, 30]"
    by (simp add: isDark_def boot_def word_sle_eq)
  from oscillation_keeps_relay [OF n f, of 4] show ?thesis by (simp add: boot_def)
qed

text \<open>
  C10. For every configuration with \<open>requiredStableTicks = N\<close> at least 1 and every state:
  when the classification changes on a tick, that tick sets the counter to 0; the relay
  state after that tick and after each of the next \<open>N - 1\<close> ticks, whatever they read, is
  the one before the change; and when the next \<open>N\<close> ticks all keep the new classification,
  the relay matches it after the last of them, which is the \<open>(N + 1)\<close>-th tick in a row
  with the new classification: if the relay disagreed with it before, it has changed on
  exactly that tick.
\<close>

theorem change_delays_switch:
  assumes "1 \<le> requiredStableTicks cfg" and "isDark cfg a0 \<noteq> lightConditionDark s"
  shows "stableTickCount (tick cfg a0 s) = 0 \<and>
         (int (length rs) \<le> requiredStableTicks cfg - 1 \<longrightarrow>
            relayState (timer_every cfg (a0 # rs) s) = relayState s) \<and>
         (int (length rs) = requiredStableTicks cfg \<and>
          (\<forall>r \<in> set rs. isDark cfg r = isDark cfg a0) \<longrightarrow>
            relayOn (timer_every cfg (a0 # rs) s) = isDark cfg a0 \<and>
            (relayOn s \<noteq> isDark cfg a0 \<longrightarrow>
               relayState (timer_every cfg (a0 # rs) s) \<noteq> relayState s))"
proof -
  let ?t = "tick cfg a0 s"
  from assms(1) have n: "0 \<le> requiredStableTicks cfg" by simp
  from n assms(2) have zero: "stableTickCount ?t = 0"
    by (simp add: tick_stable update_count_reset)
  with assms(1) have "stableTickCount ?t < requiredStableTicks cfg" by simp
  then have same: "relayState ?t = relayState s \<and> pinD5 ?t = pinD5 s \<and> pinD8 ?t = pinD8 s"
    by (rule tick_quiet)
  have run: "timer_every cfg (a0 # rs) s = timer_every cfg rs ?t"
    by (rule timer_every_Cons)
  have early: "relayState (timer_every cfg (a0 # rs) s) = relayState s"
    if "int (length rs) \<le> requiredStableTicks cfg - 1"
  proof -
    from zero that have "0 \<le> stableTickCount ?t"
      "stableTickCount ?t + int (length rs) < requiredStableTicks cfg" by simp_all
    with n have "relayState (timer_every cfg rs ?t) = relayState ?t \<and>
        pinD5 (timer_every cfg rs ?t) = pinD5 ?t \<and> pinD8 (timer_every cfg rs ?t) = pinD8 ?t"
      by (rule quiet_run)
    with same show ?thesis by (simp add: run)
  qed
  have late: "relayOn (timer_every cfg (a0 # rs) s) = isDark cfg a0"
    if "int (length rs) = requiredStableTicks cfg"
      and "\<forall>r \<in> set rs. isDark cfg r = isDark cfg a0"
  proof -
    have "relayOn (timer_every cfg rs ?t) = isDark cfg a0 \<and>
        stableTickCount (timer_every cfg rs ?t) = requiredStableTicks cfg \<and>
        lightConditionDark (timer_every cfg rs ?t) = isDark cfg a0"
      using assms(1) tick_dark [of cfg a0 s] _ _ that(2)
      by (rule steady_window) (simp_all add: zero n that(1))
    then show ?thesis by (simp add: run)
  qed
  from zero early late show ?thesis by (auto simp add: relayOn_def)
qed

text \<open>
  After boot with 3 required ticks: the first dark value sets the counter to 0, the relay
  is off after three ticks, and on after four dark values.
\<close>

theorem change_delays_switch_witness:
  "stableTickCount (tick \<lparr>settingDelayParam = 3, settingDarkLevelParam = 25\<rparr> 10
      (boot HIGH LOW)) = 0 \<and>
   relayState (timer_every \<lparr>settingDelayParam = 3, settingDarkLevelParam = 25\<rparr>
      [10, 700, 10] (boot HIGH LOW)) = 0 \<and>
   relayOn (timer_every \<lparr>settingDelayParam = 3, settingDarkLevelParam = 25\<rparr>
      [10, 10, 10, 10] (boot HIGH LOW)) \<and>
   relayState (timer_every \<lparr>settingDelayParam = 3, settingDarkLevelParam = 25\<rparr>
      [10, 10, 10, 10] (boot HIGH LOW)) \<noteq> 0"
proof -
  let ?cfg = "\<lparr>settingDelayParam = 3, settingDarkLevelParam = 25\<rparr>"
  have n: "1 \<le> requiredStableTicks ?cfg" by (simp add: requiredStableTicks_def)
  have c: "isDark ?cfg 10 \<noteq> lightConditionDark (boot HIGH LOW)"
    by (simp add: isDark_def boot_def word_sle_eq)
  have d: "isDark ?cfg 10" by (simp add: isDark_def word_sle_eq)
  from change_delays_switch [OF n c, of "[700, 10]"]
    change_delays_switch [OF n c, of "[10, 10, 10]"] d
  show ?thesis by (simp add: requiredStableTicks_def relayOn_def boot_def)
qed

text \<open>
  C1, as the code has it. For every configuration with \<open>requiredStableTicks\<close> at least 1
  (so for every threshold and every \<open>requiredStableTicks\<close> in 1..100) and every starting
  state whose counter is at least 0 and below the largest \<^verbatim>\<open>int\<close>: if the
  classification is the same on \<open>requiredStableTicks + 1\<close> ticks in a row, then at the end
  of that window the relay matches it (on if dark, off if bright), and the relay state
  and both pins do not change on any later tick while the classification stays the same.
\<close>

theorem stable_window_switches:
  assumes "1 \<le> requiredStableTicks cfg"
    and "0 \<le> stableTickCount s" and "stableTickCount s < 2147483647"
    and "int (length rs) = requiredStableTicks cfg + 1"
    and "\<forall>r \<in> set (rs @ later). isDark cfg r = d"
  shows "relayOn (timer_every cfg rs s) = d \<and>
         relayState (timer_every cfg (rs @ take k later) s) = relayState (timer_every cfg rs s) \<and>
         pinD5 (timer_every cfg (rs @ take k later) s) = pinD5 (timer_every cfg rs s) \<and>
         pinD8 (timer_every cfg (rs @ take k later) s) = pinD8 (timer_every cfg rs s)"
proof -
  from assms(1) have n: "0 \<le> requiredStableTicks cfg" by simp
  from assms(1,4) obtain a0 rest where rs: "rs = a0 # rest" by (cases rs) auto
  let ?t = "tick cfg a0 s"
  let ?w = "timer_every cfg rs s"
  have run: "?w = timer_every cfg rest ?t"
    by (simp add: rs timer_every_Cons)
  from assms(5) rs have cls: "\<forall>r \<in> set rest. isDark cfg r = d" and a0: "isDark cfg a0 = d"
    and after: "\<forall>r \<in> set (take k later). isDark cfg r = d"
    by (auto dest: in_set_takeD)
  from assms(4) rs have len: "requiredStableTicks cfg \<le> int (length rest)" by simp
  have dk: "lightConditionDark ?t = d" by (simp add: tick_dark a0)
  have ge: "0 \<le> stableTickCount ?t"
    using n assms(2,3) by (rule tick_count_nonneg)
  have le: "stableTickCount ?t \<le> requiredStableTicks cfg"
    using n assms(3) by (rule tick_count_le)
  from assms(1) dk ge le cls len
  have "relayOn (timer_every cfg rest ?t) = d \<and>
      stableTickCount (timer_every cfg rest ?t) = requiredStableTicks cfg \<and>
      lightConditionDark (timer_every cfg rest ?t) = d"
    by (rule steady_window)
  then have w: "relayOn ?w = d" "stableTickCount ?w = requiredStableTicks cfg"
    "lightConditionDark ?w = d"
    by (simp_all add: run)
  from n w(3) w(1) w(2) after
  have "relayState (timer_every cfg (take k later) ?w) = relayState ?w \<and>
      pinD5 (timer_every cfg (take k later) ?w) = pinD5 ?w \<and>
      pinD8 (timer_every cfg (take k later) ?w) = pinD8 ?w"
    by (rule settled_run)
  with w(1) show ?thesis by (simp add: timer_every_append)
qed

text \<open>
  With 2 required ticks and the relay on in the dark: three bright values switch it
  off, and two more leave it off.
\<close>

theorem stable_window_switches_witness:
  "\<not> relayOn (timer_every \<lparr>settingDelayParam = 2, settingDarkLevelParam = 25\<rparr>
      [500, 600, 700]
      \<lparr>relayState = 1, lightConditionDark = True, lightLevel = 10,
       currLightConditionCycles = 2, pinD5 = LOW, pinD8 = HIGH\<rparr>) \<and>
   relayState (timer_every \<lparr>settingDelayParam = 2, settingDarkLevelParam = 25\<rparr>
      ([500, 600, 700] @ take 2 [800, 900])
      \<lparr>relayState = 1, lightConditionDark = True, lightLevel = 10,
       currLightConditionCycles = 2, pinD5 = LOW, pinD8 = HIGH\<rparr>) =
   relayState (timer_every \<lparr>settingDelayParam = 2, settingDarkLevelParam = 25\<rparr>
      [500, 600, 700]
      \<lparr>relayState = 1, lightConditionDark = True, lightLevel = 10,
       currLightConditionCycles = 2, pinD5 = LOW, pinD8 = HIGH\<rparr>)"
proof -
  let ?cfg = "\<lparr>settingDelayParam = 2, settingDarkLevelParam = 25\<rparr>"
  let ?s = "\<lparr>relayState = 1, lightConditionDark = True, lightLevel = 10,
       currLightConditionCycles = 2, pinD5 = LOW, pinD8 = HIGH\<rparr>"
  have n: "1 \<le> requiredStableTicks ?cfg" by (simp add: requiredStableTicks_def)
  have c: "0 \<le> stableTickCount ?s" "stableTickCount ?s < 2147483647"
    by (simp_all add: stableTickCount_def)
  have l: "int (length [500, 600, 700 :: int32]) = requiredStableTicks ?cfg + 1"
    by (simp add: requiredStableTicks_def)
  have d: "\<forall>r \<in> set ([500, 600, 700] @ [800, 900]). isDark ?cfg r = False"
    by (simp add: isDark_def word_sle_eq)
  from stable_window_switches [OF n c l d, of 2] show ?thesis by simp
qed

text \<open>
  C1 as stated fails: with 2 required ticks and threshold 50, the two values 40, 40 after
  boot are both dark, a window of \<open>requiredStableTicks\<close> ticks, and the relay is still
  off at its end. The first dark value is a change and sets the counter to 0, the second
  makes it 1.
\<close>

theorem stable_window_counterexample:
  "requiredStableTicks \<lparr>settingDelayParam = 2, settingDarkLevelParam = 50\<rparr> = 2 \<and>
   darkThreshold \<lparr>settingDelayParam = 2, settingDarkLevelParam = 50\<rparr> = 50 \<and>
   isDark \<lparr>settingDelayParam = 2, settingDarkLevelParam = 50\<rparr> 40 \<and>
   \<not> relayOn (timer_every \<lparr>settingDelayParam = 2, settingDarkLevelParam = 50\<rparr> [40, 40]
                (setup_fn (boot HIGH LOW)))"
  by (simp add: requiredStableTicks_def darkThreshold_def isDark_def tick_def relayOn_def
      setup_fn_def boot_def switchRelayOff_def switchRelayOn_def checkSwitchConditions_def updateLightValue_def
      word_sle_eq word_sless_alt)

section \<open>The scenarios with threshold 25 and 3 required ticks\<close>

text \<open>
  C2 as stated fails. After \<^verbatim>\<open>setup\<close> the relay is off, the stored classification
  bright and the counter 0; after the three values 10, 10, 10 the relay is still off.
  The first value is a change of classification and sets the counter to 0, the third
  brings it to 2.
\<close>

theorem scenario_A_counterexample:
  "relayState (program \<lparr>settingDelayParam = 3, settingDarkLevelParam = 25\<rparr> (boot HIGH LOW) []) = 0 \<and>
   \<not> lightConditionDark (program \<lparr>settingDelayParam = 3, settingDarkLevelParam = 25\<rparr> (boot HIGH LOW) []) \<and>
   stableTickCount (program \<lparr>settingDelayParam = 3, settingDarkLevelParam = 25\<rparr> (boot HIGH LOW) []) = 0 \<and>
   \<not> relayOn (program \<lparr>settingDelayParam = 3, settingDarkLevelParam = 25\<rparr> (boot HIGH LOW) [10, 10, 10]) \<and>
   stableTickCount (program \<lparr>settingDelayParam = 3, settingDarkLevelParam = 25\<rparr> (boot HIGH LOW) [10, 10, 10]) = 2"
  by (simp add: program_def tick_def relayOn_def stableTickCount_def setup_fn_def boot_def
      switchRelayOff_def switchRelayOn_def checkSwitchConditions_def updateLightValue_def
      word_sle_eq word_sless_alt)

text \<open>
  C2, as the code has it. With threshold 25 and 3 required ticks, from the state after
  \<^verbatim>\<open>setup\<close> (relay off, classification bright, counter 0; the pins \<open>d5\<close>, \<open>d8\<close> at
  boot are arbitrary): fed the values 10, 10, 10, 10 over four ticks, the relay is off
  after each of the first three ticks and on at the end of tick 4.
\<close>

theorem scenario_A_four_ticks:
  "\<not> relayOn (program \<lparr>settingDelayParam = 3, settingDarkLevelParam = 25\<rparr> (boot d5 d8) [10]) \<and>
   \<not> relayOn (program \<lparr>settingDelayParam = 3, settingDarkLevelParam = 25\<rparr> (boot d5 d8) [10, 10]) \<and>
   \<not> relayOn (program \<lparr>settingDelayParam = 3, settingDarkLevelParam = 25\<rparr> (boot d5 d8) [10, 10, 10]) \<and>
   relayOn (program \<lparr>settingDelayParam = 3, settingDarkLevelParam = 25\<rparr> (boot d5 d8) [10, 10, 10, 10])"
  by (simp add: program_def tick_def relayOn_def setup_fn_def boot_def
      switchRelayOff_def switchRelayOn_def checkSwitchConditions_def updateLightValue_def
      word_sle_eq word_sless_alt)

text \<open>
  C3 as stated fails. After \<^verbatim>\<open>setup\<close> the relay is off, the stored classification
  bright and the counter 0; after the four values 30, 10, 10, 10 the relay is still off.
  The second value is the change of classification and sets the counter to 0, the fourth
  brings it to 2.
\<close>

theorem scenario_B_counterexample:
  "relayState (program \<lparr>settingDelayParam = 3, settingDarkLevelParam = 25\<rparr> (boot LOW LOW) []) = 0 \<and>
   \<not> lightConditionDark (program \<lparr>settingDelayParam = 3, settingDarkLevelParam = 25\<rparr> (boot LOW LOW) []) \<and>
   stableTickCount (program \<lparr>settingDelayParam = 3, settingDarkLevelParam = 25\<rparr> (boot LOW LOW) []) = 0 \<and>
   \<not> relayOn (program \<lparr>settingDelayParam = 3, settingDarkLevelParam = 25\<rparr> (boot LOW LOW) [30, 10, 10, 10]) \<and>
   stableTickCount (program \<lparr>settingDelayParam = 3, settingDarkLevelParam = 25\<rparr> (boot LOW LOW) [30, 10, 10, 10]) = 2"
  by (simp add: program_def tick_def relayOn_def stableTickCount_def setup_fn_def boot_def
      switchRelayOff_def switchRelayOn_def checkSwitchConditions_def updateLightValue_def
      word_sle_eq word_sless_alt)

text \<open>
  C3, as the code has it. With threshold 25 and 3 required ticks, from the state after
  \<^verbatim>\<open>setup\<close> (relay off, classification bright, counter 0; the pins \<open>d5\<close>, \<open>d8\<close> at
  boot are arbitrary): fed the values 30, 10, 10, 10, 10 over five ticks, the relay is
  off after each of the first four ticks and turns on at tick 5.
\<close>

theorem scenario_B_five_ticks:
  "\<not> relayOn (program \<lparr>settingDelayParam = 3, settingDarkLevelParam = 25\<rparr> (boot d5 d8) [30]) \<and>
   \<not> relayOn (program \<lparr>settingDelayParam = 3, settingDarkLevelParam = 25\<rparr> (boot d5 d8) [30, 10]) \<and>
   \<not> relayOn (program \<lparr>settingDelayParam = 3, settingDarkLevelParam = 25\<rparr> (boot d5 d8) [30, 10, 10]) \<and>
   \<not> relayOn (program \<lparr>settingDelayParam = 3, settingDarkLevelParam = 25\<rparr> (boot d5 d8) [30, 10, 10, 10]) \<and>
   relayOn (program \<lparr>settingDelayParam = 3, settingDarkLevelParam = 25\<rparr> (boot d5 d8) [30, 10, 10, 10, 10])"
  by (simp add: program_def tick_def relayOn_def setup_fn_def boot_def
      switchRelayOff_def switchRelayOn_def checkSwitchConditions_def updateLightValue_def
      word_sle_eq word_sless_alt)

end
